theory Spec2Isabelle
  imports Complex_Main
begin

section \<open>Points, arrays of points and their arithmetic\<close>

text \<open>
  The module \<^verbatim>\<open>manim/utils/paths.py\<close> computes with numpy arrays of shape \<open>(N, 3)\<close>:
  one row per point. A row is a triple of coordinates, an array a list of rows.
  Floating-point numbers are idealised as real numbers and \<^verbatim>\<open>np.pi\<close> as \<open>pi\<close>.
\<close>

type_synonym vec3 = "real \<times> real \<times> real"

type_synonym mat3 = "vec3 \<times> vec3 \<times> vec3"

text \<open>
  Two things can go wrong in an evaluation. Arrays whose shapes do not broadcast
  make numpy raise \<^verbatim>\<open>ValueError\<close>. A division by zero raises nothing in numpy: it
  puts an infinity or a NaN into the array, and every later sum and product keeps
  the entry non-finite; the model reports such a result as \<open>NonFinite\<close>.
\<close>

datatype failure = ValueError | NonFinite

definition bind_res :: "failure + 'a \<Rightarrow> ('a \<Rightarrow> failure + 'b) \<Rightarrow> failure + 'b" where
  "bind_res r f = (case r of Inl e \<Rightarrow> Inl e | Inr x \<Rightarrow> f x)"

fun vadd :: "vec3 \<Rightarrow> vec3 \<Rightarrow> vec3" where
  "vadd (a, b, c) (x, y, z) = (a + x, b + y, c + z)"

fun vsub :: "vec3 \<Rightarrow> vec3 \<Rightarrow> vec3" where
  "vsub (a, b, c) (x, y, z) = (a - x, b - y, c - z)"

fun smul :: "real \<Rightarrow> vec3 \<Rightarrow> vec3" where
  "smul k (x, y, z) = (k * x, k * y, k * z)"

fun dot :: "vec3 \<Rightarrow> vec3 \<Rightarrow> real" where
  "dot (a, b, c) (x, y, z) = a * x + b * y + c * z"

fun cross :: "vec3 \<Rightarrow> vec3 \<Rightarrow> vec3" where
  "cross (a, b, c) (x, y, z) = (b * z - c * y, c * x - a * z, a * y - b * x)"

definition norm3 :: "vec3 \<Rightarrow> real" where
  "norm3 v = sqrt (dot v v)"

definition dist3 :: "vec3 \<Rightarrow> vec3 \<Rightarrow> real" where
  "dist3 p q = norm3 (vsub p q)"

text \<open>
  An elementwise operation on two arrays of shapes \<open>(n, 3)\<close> and \<open>(m, 3)\<close> follows
  numpy's broadcasting rule on the first axis: equal lengths pair the rows, an
  array with a single row is repeated against every row of the other, and any
  other pair of lengths raises \<^verbatim>\<open>ValueError\<close>.
\<close>

definition np_broadcast ::
  "(vec3 \<Rightarrow> vec3 \<Rightarrow> vec3) \<Rightarrow> vec3 list \<Rightarrow> vec3 list \<Rightarrow> failure + vec3 list" where
  "np_broadcast f xs ys =
     (if length xs = length ys then Inr (map2 f xs ys)
      else if length xs = 1 then Inr (map (f (hd xs)) ys)
      else if length ys = 1 then Inr (map (\<lambda>x. f x (hd ys)) xs)
      else Inl ValueError)"

definition np_add :: "vec3 list \<Rightarrow> vec3 list \<Rightarrow> failure + vec3 list" where
  "np_add = np_broadcast vadd"

definition np_sub :: "vec3 list \<Rightarrow> vec3 list \<Rightarrow> failure + vec3 list" where
  "np_sub = np_broadcast vsub"

definition np_scale :: "real \<Rightarrow> vec3 list \<Rightarrow> vec3 list" where
  "np_scale k xs = map (smul k) xs"

definition np_cross :: "vec3 \<Rightarrow> vec3 list \<Rightarrow> vec3 list" where
  "np_cross u xs = map (cross u) xs"

fun transpose3 :: "mat3 \<Rightarrow> mat3" where
  "transpose3 ((a, b, c), (d, e, f), (g, h, i)) = ((a, d, g), (b, e, h), (c, f, i))"

fun vec_mat :: "vec3 \<Rightarrow> mat3 \<Rightarrow> vec3" where
  "vec_mat (x, y, z) ((a, b, c), (d, e, f), (g, h, i)) =
     (x * a + y * d + z * g, x * b + y * e + z * h, x * c + y * f + z * i)"

definition np_dot :: "vec3 list \<Rightarrow> mat3 \<Rightarrow> vec3 list" where
  "np_dot xs m = map (\<lambda>v. vec_mat v m) xs"

text \<open>
  \<^verbatim>\<open>np.tan\<close> has poles at the odd multiples of \<open>pi / 2\<close>, where the tangent has no
  real value. IEEE arithmetic stands for the overflow with an infinity, and a
  finite number divided by an infinity is zero; the model keeps both facts.

  At a non-zero multiple of \<open>pi\<close> the tangent of the real number is zero, but the
  program never computes a zero there: its argument is the double next to the
  multiple, and \<^verbatim>\<open>np.tan\<close> returns the small non-zero number that the rounding of
  the argument leaves (\<^verbatim>\<open>np.tan(np.pi)\<close> is \<^verbatim>\<open>-1.22e-16\<close>). The reals do not
  determine that number, so it is a parameter of the model, \<open>tan_residue\<close>; the
  program's value is never zero, and a theorem that depends on it assumes
  \<open>tan_residue \<noteq> 0\<close>. Only \<^verbatim>\<open>np.tan(0.0)\<close> is zero, and a non-empty array divided by
  zero holds only infinities and NaNs.
\<close>

datatype xreal = Finite real | Infinity

definition np_tan :: "real \<Rightarrow> real \<Rightarrow> xreal" where
  "np_tan tan_residue x =
     (if cos x = 0 then Infinity
      else if sin x = 0 \<and> x \<noteq> 0 then Finite tan_residue
      else Finite (sin x / cos x))"

definition np_div :: "vec3 list \<Rightarrow> xreal \<Rightarrow> failure + vec3 list" where
  "np_div xs t =
     (case t of
        Infinity \<Rightarrow> Inr (map (\<lambda>v. (0, 0, 0)) xs)
      | Finite r \<Rightarrow>
          if r = 0 then (if xs = [] then Inr [] else Inl NonFinite)
          else Inr (map (smul (1 / r)) xs))"

section \<open>The helpers imported by the module\<close>

text \<open>
  Modelled from the spec: the constant \<^verbatim>\<open>OUT\<close> of \<^verbatim>\<open>manim/constants.py\<close>, the
  conventional out-of-plane unit vector.
\<close>

definition OUT :: vec3 where
  "OUT = (0, 0, 1)"

text \<open>
  Modelled from the spec: \<^verbatim>\<open>normalize\<close> of \<^verbatim>\<open>manim/utils/space_ops.py\<close>, which
  returns the vector scaled to unit length, and the fall-back when the vector has
  zero magnitude.
\<close>

definition normalize_vec :: "vec3 \<Rightarrow> vec3 \<Rightarrow> vec3" where
  "normalize_vec v fall_back = (if norm3 v = 0 then fall_back else smul (1 / norm3 v) v)"

text \<open>
  Modelled from the spec: \<^verbatim>\<open>rotation_matrix\<close> of \<^verbatim>\<open>manim/utils/space_ops.py\<close>, the
  closed form identity * cos + skew(axis) * sin + outer(axis, axis) * (1 - cos).
\<close>

definition mat_identity :: mat3 where
  "mat_identity = ((1, 0, 0), (0, 1, 0), (0, 0, 1))"

fun skew :: "vec3 \<Rightarrow> mat3" where
  "skew (x, y, z) = ((0, - z, y), (z, 0, - x), (- y, x, 0))"

fun outer :: "vec3 \<Rightarrow> vec3 \<Rightarrow> mat3" where
  "outer (a, b, c) v = (smul a v, smul b v, smul c v)"

fun madd :: "mat3 \<Rightarrow> mat3 \<Rightarrow> mat3" where
  "madd (r1, r2, r3) (q1, q2, q3) = (vadd r1 q1, vadd r2 q2, vadd r3 q3)"

fun mscale :: "real \<Rightarrow> mat3 \<Rightarrow> mat3" where
  "mscale k (r1, r2, r3) = (smul k r1, smul k r2, smul k r3)"

definition rotation_matrix :: "real \<Rightarrow> vec3 \<Rightarrow> mat3" where
  "rotation_matrix angle axis =
     madd (madd (mscale (cos angle) mat_identity) (mscale (sin angle) (skew axis)))
          (mscale (1 - cos angle) (outer axis axis))"

text \<open>
  Modelled from the spec: \<^verbatim>\<open>interpolate\<close> of \<^verbatim>\<open>manim/utils/bezier.py\<close>, which is
  \<open>start + alpha * (end - start)\<close> on arrays.
\<close>

definition interpolate :: "vec3 list \<Rightarrow> vec3 list \<Rightarrow> real \<Rightarrow> failure + vec3 list" where
  "interpolate start_points end_points alpha =
     bind_res (np_sub end_points start_points) (\<lambda>d.
       np_add start_points (np_scale alpha d))"

section \<open>The path functions\<close>

type_synonym path_func = "vec3 list \<Rightarrow> vec3 list \<Rightarrow> real \<Rightarrow> failure + vec3 list"

definition STRAIGHT_PATH_THRESHOLD :: real where
  "STRAIGHT_PATH_THRESHOLD = 1 / 100"

definition straight_path :: path_func where
  "straight_path = interpolate"

text \<open>The closure \<^verbatim>\<open>path\<close> of \<^verbatim>\<open>path_along_circles\<close>.\<close>

definition circles_path :: "real \<Rightarrow> vec3 list \<Rightarrow> vec3 \<Rightarrow> path_func" where
  "circles_path arc_angle circles_centers unit_axis start_points end_points alpha =
     bind_res (np_sub end_points circles_centers) (\<lambda>d.
     bind_res (np_add circles_centers
                 (np_dot d (transpose3 (rotation_matrix (- arc_angle) unit_axis))))
       (\<lambda>detransformed_end_points.
     let rot_matrix = rotation_matrix (alpha * arc_angle) unit_axis in
     bind_res (interpolate start_points detransformed_end_points alpha) (\<lambda>p.
     bind_res (np_sub p circles_centers) (\<lambda>q.
       np_add circles_centers (np_dot q (transpose3 rot_matrix))))))"

definition path_along_circles :: "real \<Rightarrow> vec3 list \<Rightarrow> vec3 \<Rightarrow> path_func" where
  "path_along_circles arc_angle circles_centers axis =
     circles_path arc_angle circles_centers (normalize_vec axis OUT)"

text \<open>
  The closure \<^verbatim>\<open>path\<close> of \<^verbatim>\<open>path_along_arc\<close>, in two parts: the centers it
  computes, and the rotation of the start points about them. The first argument of
  the constructors of arcs is the parameter \<open>tan_residue\<close> of \<open>np_tan\<close>.
\<close>

definition arc_centers ::
  "real \<Rightarrow> real \<Rightarrow> vec3 \<Rightarrow> vec3 list \<Rightarrow> vec3 list \<Rightarrow> failure + vec3 list" where
  "arc_centers tan_residue arc_angle unit_axis start_points end_points =
     bind_res (np_sub end_points start_points) (\<lambda>vects.
     bind_res (np_add start_points (np_scale (1 / 2) vects)) (\<lambda>centers.
       if arc_angle \<noteq> pi then
         bind_res (np_div (np_cross unit_axis (np_scale (1 / 2) vects))
                     (np_tan tan_residue (arc_angle / 2)))
           (\<lambda>offset. np_add centers offset)
       else Inr centers))"

definition arc_path :: "real \<Rightarrow> real \<Rightarrow> vec3 \<Rightarrow> path_func" where
  "arc_path tan_residue arc_angle unit_axis start_points end_points alpha =
     bind_res (arc_centers tan_residue arc_angle unit_axis start_points end_points)
       (\<lambda>centers.
     let rot_matrix = rotation_matrix (alpha * arc_angle) unit_axis in
     bind_res (np_sub start_points centers) (\<lambda>d.
       np_add centers (np_dot d (transpose3 rot_matrix))))"

definition path_along_arc :: "real \<Rightarrow> real \<Rightarrow> vec3 \<Rightarrow> path_func" where
  "path_along_arc tan_residue arc_angle axis =
     (if \<bar>arc_angle\<bar> < STRAIGHT_PATH_THRESHOLD then straight_path
      else arc_path tan_residue arc_angle (normalize_vec axis OUT))"

definition clockwise_path :: "real \<Rightarrow> path_func" where
  "clockwise_path tan_residue = path_along_arc tan_residue (- pi) OUT"

definition counterclockwise_path :: "real \<Rightarrow> path_func" where
  "counterclockwise_path tan_residue = path_along_arc tan_residue pi OUT"

text \<open>The closure \<^verbatim>\<open>path\<close> of \<^verbatim>\<open>spiral_path\<close>.\<close>

definition spiral :: "real \<Rightarrow> vec3 \<Rightarrow> path_func" where
  "spiral angle unit_axis start_points end_points alpha =
     (let rot_matrix = rotation_matrix ((alpha - 1) * angle) unit_axis in
      bind_res (np_sub end_points start_points) (\<lambda>d.
        np_add start_points (np_scale alpha (np_dot d (transpose3 rot_matrix)))))"

definition spiral_path :: "real \<Rightarrow> vec3 \<Rightarrow> path_func" where
  "spiral_path angle axis =
     (if \<bar>angle\<bar> < STRAIGHT_PATH_THRESHOLD then straight_path
      else spiral angle (normalize_vec axis OUT))"

section \<open>What the path functions compute for one point\<close>

text \<open>
  The arrays are processed row by row. The definitions below state what one row of the
  result is; the lemmas that follow prove that the array computations above yield exactly
  these rows. In them \<open>eps\<close> is the parameter \<open>tan_residue\<close> of \<open>np_tan\<close>, and
  \<open>cot_value\<close> is the factor by which a division by \<^verbatim>\<open>np.tan(x)\<close> multiplies a row.
  The closed instances further down take \<open>- 1 / 10 ^ 16\<close> for the residue.
\<close>

definition rot_vec :: "real \<Rightarrow> vec3 \<Rightarrow> vec3 \<Rightarrow> vec3" where
  "rot_vec angle u v =
     vadd (vadd (smul (cos angle) v) (smul (sin angle) (cross u v)))
          (smul ((1 - cos angle) * dot u v) u)"

definition interp_point :: "vec3 \<Rightarrow> vec3 \<Rightarrow> real \<Rightarrow> vec3" where
  "interp_point p q alpha = vadd p (smul alpha (vsub q p))"

definition spiral_point :: "real \<Rightarrow> vec3 \<Rightarrow> vec3 \<Rightarrow> vec3 \<Rightarrow> real \<Rightarrow> vec3" where
  "spiral_point angle u s e alpha = vadd s (smul alpha (rot_vec ((alpha - 1) * angle) u (vsub e s)))"

definition circles_point :: "real \<Rightarrow> vec3 \<Rightarrow> vec3 \<Rightarrow> vec3 \<Rightarrow> vec3 \<Rightarrow> real \<Rightarrow> vec3" where
  "circles_point arc_angle u c s e alpha =
     vadd c (rot_vec (alpha * arc_angle) u
       (vsub (interp_point s (vadd c (rot_vec (- arc_angle) u (vsub e c))) alpha) c))"

definition cot_value :: "real \<Rightarrow> real \<Rightarrow> real" where
  "cot_value eps x = (case np_tan eps x of Infinity \<Rightarrow> 0 | Finite t \<Rightarrow> 1 / t)"

definition arc_center_point :: "real \<Rightarrow> real \<Rightarrow> vec3 \<Rightarrow> vec3 \<Rightarrow> vec3 \<Rightarrow> vec3" where
  "arc_center_point eps arc_angle u s e =
     vadd (vadd s (smul (1 / 2) (vsub e s)))
          (smul (cot_value eps (arc_angle / 2)) (cross u (smul (1 / 2) (vsub e s))))"

definition arc_point :: "real \<Rightarrow> real \<Rightarrow> vec3 \<Rightarrow> vec3 \<Rightarrow> vec3 \<Rightarrow> real \<Rightarrow> vec3" where
  "arc_point eps arc_angle u s e alpha =
     vadd (arc_center_point eps arc_angle u s e)
          (rot_vec (alpha * arc_angle) u (vsub s (arc_center_point eps arc_angle u s e)))"

definition broadcast_centers :: "vec3 list \<Rightarrow> nat \<Rightarrow> vec3 list" where
  "broadcast_centers cs n = (if length cs = n then cs else replicate n (hd cs))"

text \<open>
  The chord midpoint, the reflection of a point across the line through a chord (across
  the point itself when the chord has length zero), and the test that every chord from
  a start point to its end point is perpendicular to a vector \<open>u\<close>.
\<close>

definition perpendicular_chords :: "vec3 \<Rightarrow> vec3 list \<Rightarrow> vec3 list \<Rightarrow> bool" where
  "perpendicular_chords u start_points end_points =
     list_all (\<lambda>(p, q). dot u (vsub q p) = 0) (zip start_points end_points)"

definition midpoint :: "vec3 \<Rightarrow> vec3 \<Rightarrow> vec3" where
  "midpoint s e = smul (1 / 2) (vadd s e)"

definition reflect_across_chord :: "vec3 \<Rightarrow> vec3 \<Rightarrow> vec3 \<Rightarrow> vec3" where
  "reflect_across_chord s e p =
     (let d = vsub e s;
          foot = (if dot d d = 0 then s else vadd s (smul (dot (vsub p s) d / dot d d) d))
      in vsub (smul 2 foot) p)"


section \<open>Array arithmetic on rows\<close>

lemma bind_res_Inr [simp]: "bind_res (Inr x) f = f x"
  by (simp add: bind_res_def)

lemma bind_res_Inl [simp]: "bind_res (Inl e) f = Inl e"
  by (simp add: bind_res_def)

lemma np_broadcast_map:
  "np_broadcast f (map g zs) (map h zs) = Inr (map (\<lambda>z. f (g z) (h z)) zs)"
  by (simp add: np_broadcast_def zip_map_map zip_same_conv_map)

lemma np_broadcast_single_right:
  "np_broadcast f (map g zs) [c] = Inr (map (\<lambda>z. f (g z) c) zs)"
proof (cases "length zs = 1")
  case True
  then obtain z where "zs = [z]" by (cases zs) auto
  then show ?thesis by (simp add: np_broadcast_def)
next
  case False
  then show ?thesis by (auto simp add: np_broadcast_def)
qed

lemma np_broadcast_single_left:
  "np_broadcast f [c] (map h zs) = Inr (map (\<lambda>z. f c (h z)) zs)"
proof (cases "length zs = 1")
  case True
  then obtain z where "zs = [z]" by (cases zs) auto
  then show ?thesis by (simp add: np_broadcast_def)
next
  case False
  then show ?thesis by (auto simp add: np_broadcast_def)
qed

lemma np_broadcast_mismatch:
  "length xs \<noteq> length ys \<Longrightarrow> length xs \<noteq> 1 \<Longrightarrow> length ys \<noteq> 1 \<Longrightarrow>
   np_broadcast f xs ys = Inl ValueError"
  by (simp add: np_broadcast_def)

lemma vec_mat_rotation:
  "vec_mat v (transpose3 (rotation_matrix angle u)) = rot_vec angle u v"
  by (cases v; cases u) (simp add: rotation_matrix_def rot_vec_def mat_identity_def algebra_simps)

lemma np_dot_rotation:
  "np_dot (map g zs) (transpose3 (rotation_matrix angle u)) = map (\<lambda>z. rot_vec angle u (g z)) zs"
  by (simp add: np_dot_def vec_mat_rotation)

lemma np_scale_map: "np_scale k (map g zs) = map (\<lambda>z. smul k (g z)) zs"
  by (simp add: np_scale_def)

lemma np_cross_map: "np_cross u (map g zs) = map (\<lambda>z. cross u (g z)) zs"
  by (simp add: np_cross_def)

lemma interpolate_map:
  "interpolate (map g zs) (map h zs) alpha = Inr (map (\<lambda>z. interp_point (g z) (h z) alpha) zs)"
  by (simp add: interpolate_def np_sub_def np_add_def np_broadcast_map np_scale_map interp_point_def)

lemma spiral_map:
  "spiral angle u (map g zs) (map h zs) alpha = Inr (map (\<lambda>z. spiral_point angle u (g z) (h z) alpha) zs)"
  by (simp add: spiral_def np_sub_def np_add_def np_broadcast_map np_scale_map np_dot_rotation
      spiral_point_def)

lemma circles_map:
  "circles_path arc_angle (map k zs) u (map g zs) (map h zs) alpha =
   Inr (map (\<lambda>z. circles_point arc_angle u (k z) (g z) (h z) alpha) zs)"
  by (simp add: circles_path_def np_sub_def np_add_def np_broadcast_map np_dot_rotation
      interpolate_map circles_point_def)

lemma circles_single:
  "circles_path arc_angle [c] u (map g zs) (map h zs) alpha =
   Inr (map (\<lambda>z. circles_point arc_angle u c (g z) (h z) alpha) zs)"
  by (simp add: circles_path_def np_sub_def np_add_def np_broadcast_map np_dot_rotation
      np_broadcast_single_right np_broadcast_single_left interpolate_map circles_point_def)

lemma vadd_zero [simp]: "vadd v (0, 0, 0) = v"
  by (cases v) simp

lemma smul_zero [simp]: "smul 0 v = (0, 0, 0)"
  by (cases v) simp

lemma cot_value_regular:
  assumes "sin x \<noteq> 0"
  shows "cot_value eps x = cos x / sin x"
  using assms by (simp add: cot_value_def np_tan_def)

lemma cot_value_pole [simp]: "cot_value eps (pi / 2) = 0" "cot_value eps (- (pi / 2)) = 0"
  by (simp_all add: cot_value_def np_tan_def)

lemma tan_divisor_nonzero:
  assumes "sin x \<noteq> 0 \<or> (eps \<noteq> 0 \<and> x \<noteq> 0)"
  shows "np_tan eps x \<noteq> Finite 0"
  using assms by (auto simp add: np_tan_def)

lemma np_div_tan_map:
  assumes "np_tan eps x \<noteq> Finite 0"
  shows "np_div (map g zs) (np_tan eps x) = Inr (map (\<lambda>z. smul (cot_value eps x) (g z)) zs)"
  using assms by (cases "np_tan eps x") (simp_all add: np_div_def cot_value_def)

lemma arc_centers_map:
  assumes "arc_angle = pi \<or> np_tan eps (arc_angle / 2) \<noteq> Finite 0"
  shows "arc_centers eps arc_angle u (map g zs) (map h zs) =
         Inr (map (\<lambda>z. arc_center_point eps arc_angle u (g z) (h z)) zs)"
proof (cases "arc_angle = pi")
  case True
  then show ?thesis
    by (simp add: arc_centers_def np_sub_def np_add_def np_broadcast_map np_scale_map
        arc_center_point_def)
next
  case False
  with assms have "np_tan eps (arc_angle / 2) \<noteq> Finite 0" by simp
  with False show ?thesis
    by (simp add: arc_centers_def np_sub_def np_add_def np_broadcast_map np_scale_map
        np_cross_map np_div_tan_map arc_center_point_def)
qed

lemma arc_centers_nonfinite:
  assumes "arc_angle \<noteq> pi" and "np_tan eps (arc_angle / 2) = Finite 0" and "zs \<noteq> []"
  shows "arc_centers eps arc_angle u (map g zs) (map h zs) = Inl NonFinite"
  using assms
  by (simp add: arc_centers_def np_sub_def np_add_def np_broadcast_map np_scale_map
      np_cross_map np_div_def)

lemma arc_path_map:
  assumes "arc_angle = pi \<or> np_tan eps (arc_angle / 2) \<noteq> Finite 0"
  shows "arc_path eps arc_angle u (map g zs) (map h zs) alpha =
         Inr (map (\<lambda>z. arc_point eps arc_angle u (g z) (h z) alpha) zs)"
  by (simp add: arc_path_def arc_centers_map [OF assms] np_sub_def np_add_def np_broadcast_map
      np_dot_rotation arc_point_def)

lemma rot_vec_zero [simp]: "rot_vec 0 u v = v"
  by (cases v; cases u) (simp add: rot_vec_def)

lemma vadd_vsub_cancel [simp]: "vadd c (vsub s c) = s"
  by (cases c; cases s) simp

lemma arc_point_start: "arc_point eps arc_angle u s e 0 = s"
  by (simp add: arc_point_def)

lemma interp_point_0 [simp]: "interp_point p q 0 = p"
  by (cases p; cases q) (simp add: interp_point_def)

lemma interp_point_1 [simp]: "interp_point p q 1 = q"
  by (cases p; cases q) (simp add: interp_point_def)

lemma spiral_point_0: "spiral_point angle u s e 0 = s"
  by (cases s; cases "rot_vec (- angle) u (vsub e s)") (simp add: spiral_point_def)

lemma spiral_point_1: "spiral_point angle u s e 1 = e"
  by (cases s; cases e) (simp add: spiral_point_def)

lemma circles_point_0: "circles_point arc_angle u c s e 0 = s"
  by (simp add: circles_point_def)

lemma rot_vec_inverse:
  assumes "dot u u = 1"
  shows "rot_vec angle u (rot_vec (- angle) u v) = v"
proof -
  obtain a b c where u: "u = (a, b, c)" by (cases u) auto
  obtain x y z where v: "v = (x, y, z)" by (cases v) auto
  define C where "C = cos angle"
  define S where "S = sin angle"
  have sc: "S * S + C * C = 1"
    using sin_cos_squared_add3 [of angle] by (simp add: S_def C_def add.commute)
  have un: "a * a + b * b + c * c = 1" using assms by (simp add: u)
  show ?thesis
    unfolding u v rot_vec_def using sc un
    apply (simp add: C_def [symmetric] S_def [symmetric])
    apply (intro conjI)
      apply algebra+
    done
qed

lemma rot_vec_dot:
  assumes "dot u u = 1"
  shows "dot (rot_vec angle u v) (rot_vec angle u v) = dot v v"
proof -
  obtain a b c where u: "u = (a, b, c)" by (cases u) auto
  obtain x y z where v: "v = (x, y, z)" by (cases v) auto
  define C where "C = cos angle"
  define S where "S = sin angle"
  have sc: "S * S + C * C = 1"
    using sin_cos_squared_add3 [of angle] by (simp add: S_def C_def add.commute)
  have un: "a * a + b * b + c * c = 1" using assms by (simp add: u)
  show ?thesis
    unfolding u v rot_vec_def using sc un
    apply (simp add: C_def [symmetric] S_def [symmetric])
    apply algebra
    done
qed

lemma arc_point_end:
  assumes s0: "sin (arc_angle / 2) \<noteq> 0" and "dot u u = 1" and "dot u (vsub e s) = 0"
  shows "arc_point eps arc_angle u s e 1 = e"
proof -
  obtain a b c where u: "u = (a, b, c)" by (cases u) auto
  obtain x y z where s: "s = (x, y, z)" by (cases s) auto
  obtain p q r where e: "e = (p, q, r)" by (cases e) auto
  define C where "C = cos (arc_angle / 2)"
  define S where "S = sin (arc_angle / 2)"
  define T where "T = C / S"
  have ts: "T * S = C" using s0 by (simp add: T_def S_def)
  have sc: "S * S + C * C = 1"
    using sin_cos_squared_add3 [of "arc_angle / 2"] by (simp add: S_def C_def add.commute)
  have ca: "cos arc_angle = C * C - S * S"
    using cos_double [of "arc_angle / 2"] by (simp add: C_def S_def power2_eq_square)
  have sa: "sin arc_angle = 2 * S * C"
    using sin_double [of "arc_angle / 2"] by (simp add: C_def S_def)
  have un: "a * a + b * b + c * c = 1" using assms(2) by (simp add: u)
  have pe: "a * (p - x) + b * (q - y) + c * (r - z) = 0" using assms(3) by (simp add: u s e)
  show ?thesis
    unfolding u s e arc_point_def arc_center_point_def cot_value_regular [OF s0] rot_vec_def
    using sc un pe ts
    apply (simp add: ca sa C_def [symmetric] S_def [symmetric] T_def [symmetric])
    apply (intro conjI)
      apply algebra+
    done
qed

lemma length_broadcast_centers [simp]: "length (broadcast_centers cs n) = n"
  by (simp add: broadcast_centers_def)

lemma straight_path_pointwise:
  assumes "length s = length e"
  shows "straight_path s e alpha = Inr (map2 (\<lambda>p q. interp_point p q alpha) s e)"
proof -
  have "straight_path (map fst (zip s e)) (map snd (zip s e)) alpha =
        Inr (map (\<lambda>z. interp_point (fst z) (snd z) alpha) (zip s e))"
    unfolding straight_path_def by (rule interpolate_map)
  with assms show ?thesis by (simp add: case_prod_beta)
qed

lemma spiral_pointwise:
  assumes "length s = length e"
  shows "spiral angle u s e alpha = Inr (map2 (\<lambda>p q. spiral_point angle u p q alpha) s e)"
proof -
  have "spiral angle u (map fst (zip s e)) (map snd (zip s e)) alpha =
        Inr (map (\<lambda>z. spiral_point angle u (fst z) (snd z) alpha) (zip s e))"
    by (rule spiral_map)
  with assms show ?thesis by (simp add: case_prod_beta)
qed

lemma arc_centers_rows:
  assumes "length s = length e"
    and "arc_angle = pi \<or> np_tan eps (arc_angle / 2) \<noteq> Finite 0"
  shows "arc_centers eps arc_angle u s e = Inr (map2 (arc_center_point eps arc_angle u) s e)"
proof -
  have "arc_centers eps arc_angle u (map fst (zip s e)) (map snd (zip s e)) =
        Inr (map (\<lambda>z. arc_center_point eps arc_angle u (fst z) (snd z)) (zip s e))"
    using assms(2) by (rule arc_centers_map)
  with assms(1) show ?thesis by (simp add: case_prod_beta)
qed

lemma arc_centers_pointwise:
  assumes "length s = length e"
    and "sin (arc_angle / 2) \<noteq> 0 \<or> (eps \<noteq> 0 \<and> arc_angle \<noteq> 0)"
  shows "arc_centers eps arc_angle u s e = Inr (map2 (arc_center_point eps arc_angle u) s e)"
proof -
  have "np_tan eps (arc_angle / 2) \<noteq> Finite 0"
    using assms(2) by (intro tan_divisor_nonzero) auto
  with assms(1) show ?thesis by (simp add: arc_centers_rows)
qed

lemma arc_path_pointwise:
  assumes "length s = length e"
    and "sin (arc_angle / 2) \<noteq> 0 \<or> (eps \<noteq> 0 \<and> arc_angle \<noteq> 0)"
  shows "arc_path eps arc_angle u s e alpha =
         Inr (map2 (\<lambda>p q. arc_point eps arc_angle u p q alpha) s e)"
proof -
  have "np_tan eps (arc_angle / 2) \<noteq> Finite 0"
    using assms(2) by (intro tan_divisor_nonzero) auto
  then have "arc_path eps arc_angle u (map fst (zip s e)) (map snd (zip s e)) alpha =
        Inr (map (\<lambda>z. arc_point eps arc_angle u (fst z) (snd z) alpha) (zip s e))"
    by (intro arc_path_map) simp
  with assms(1) show ?thesis by (simp add: case_prod_beta)
qed

lemma circles_pointwise:
  assumes "length s = length e" and "length cs = length s \<or> length cs = 1"
  shows "circles_path arc_angle cs u s e alpha =
         Inr (map2 (\<lambda>c (p, q). circles_point arc_angle u c p q alpha)
                (broadcast_centers cs (length s)) (zip s e))"
proof (cases "length cs = length s")
  case True
  let ?zs = "zip cs (zip s e)"
  have "circles_path arc_angle (map fst ?zs) u (map (fst \<circ> snd) ?zs) (map (snd \<circ> snd) ?zs) alpha =
        Inr (map (\<lambda>z. circles_point arc_angle u (fst z) ((fst \<circ> snd) z) ((snd \<circ> snd) z) alpha) ?zs)"
    by (rule circles_map)
  moreover have "map fst ?zs = cs" "map (fst \<circ> snd) ?zs = s" "map (snd \<circ> snd) ?zs = e"
    using True assms(1) by (simp_all flip: map_map)
  ultimately show ?thesis
    using True by (simp add: broadcast_centers_def case_prod_beta)
next
  case False
  with assms(2) obtain c where cs: "cs = [c]" by (cases cs) auto
  let ?zs = "zip s e"
  have "circles_path arc_angle [c] u (map fst ?zs) (map snd ?zs) alpha =
        Inr (map (\<lambda>z. circles_point arc_angle u c (fst z) (snd z) alpha) ?zs)"
    by (rule circles_single)
  moreover have "map2 (\<lambda>c (p, q). circles_point arc_angle u c p q alpha) (replicate (length s) c) ?zs =
        map (\<lambda>z. circles_point arc_angle u c (fst z) (snd z) alpha) ?zs"
    using assms(1) by (intro nth_equalityI) (simp_all add: case_prod_beta)
  ultimately show ?thesis
    using False assms(1) by (simp add: broadcast_centers_def cs)
qed

lemma dot_nonneg: "0 \<le> dot v v"
  by (cases v) simp

lemma dot_smul_smul: "dot (smul k v) (smul k v) = k\<^sup>2 * dot v v"
  by (cases v) (simp add: power2_eq_square algebra_simps)

lemma normalize_unit: "dot (normalize_vec axis OUT) (normalize_vec axis OUT) = 1"
proof (cases "norm3 axis = 0")
  case True
  then show ?thesis by (simp add: normalize_vec_def OUT_def)
next
  case False
  have n2: "(norm3 axis)\<^sup>2 = dot axis axis"
    by (simp add: norm3_def dot_nonneg)
  have "(1 / norm3 axis)\<^sup>2 * (norm3 axis)\<^sup>2 = 1"
    using False by (simp add: power_divide)
  then have "(1 / norm3 axis)\<^sup>2 * dot axis axis = 1"
    by (simp only: n2)
  with False show ?thesis by (simp add: normalize_vec_def dot_smul_smul)
qed

section \<open>Small-angle fall-back\<close>

text \<open>
  C6. For every angle with \<open>\<bar>angle\<bar> < 0.01\<close>, \<^verbatim>\<open>path_along_arc(angle)\<close> and
  \<^verbatim>\<open>spiral_path(angle)\<close> each return the straight-line path function itself, for
  every axis, so their outputs agree with those of \<^verbatim>\<open>straight_path()\<close> on all
  inputs.
\<close>

theorem small_angle_is_straight_path:
  assumes "\<bar>angle\<bar> < 1 / 100"
  shows "path_along_arc tan_residue angle axis = straight_path \<and> spiral_path angle axis = straight_path"
  using assms by (simp add: path_along_arc_def spiral_path_def STRAIGHT_PATH_THRESHOLD_def)

theorem small_angle_is_straight_path_witness:
  "\<bar>1 / 200 :: real\<bar> < 1 / 100
   \<and> path_along_arc (- 1 / 10 ^ 16) (1 / 200) OUT = straight_path
   \<and> spiral_path (1 / 200) OUT = straight_path"
  using small_angle_is_straight_path [where angle = "1 / 200" and tan_residue = "- 1 / 10 ^ 16" and axis = OUT]
  by simp

section \<open>Evaluation at the ends and at the half turns\<close>

lemma normalize_OUT [simp]: "normalize_vec OUT OUT = OUT"
  by (simp add: normalize_vec_def OUT_def norm3_def)

lemma sin_half_pi_angles [simp]: "sin (- pi / 2) = - 1"
  using sin_minus [of "pi / 2"] by simp

lemma pi_not_small: "\<not> pi < STRAIGHT_PATH_THRESHOLD"
  using pi_ge_two by (simp add: STRAIGHT_PATH_THRESHOLD_def)

lemma map2_same_fst:
  assumes "length s = length e"
  shows "map2 (\<lambda>p q. p) s e = s"
  using assms by (intro nth_equalityI) simp_all

lemma map2_same_snd:
  assumes "length s = length e"
  shows "map2 (\<lambda>p q. q) s e = e"
  using assms by (intro nth_equalityI) simp_all

lemma arc_path_start:
  assumes "length s = length e" and "sin (arc_angle / 2) \<noteq> 0"
  shows "arc_path eps arc_angle u s e 0 = Inr s"
  using assms by (simp add: arc_path_pointwise arc_point_start map2_same_fst)

lemma arc_path_end:
  assumes "length s = length e" and "sin (arc_angle / 2) \<noteq> 0" and "dot u u = 1"
    and "perpendicular_chords u s e"
  shows "arc_path eps arc_angle u s e 1 = Inr e"
proof -
  have "map2 (\<lambda>p q. arc_point eps arc_angle u p q 1) s e = map2 (\<lambda>p q. q) s e"
    using assms(2-4)
    by (intro map_cong) (auto simp add: arc_point_end perpendicular_chords_def list_all_iff)
  with assms(1,2) show ?thesis
    by (simp add: arc_path_pointwise map2_same_snd)
qed

lemma straight_path_start: "length s = length e \<Longrightarrow> straight_path s e 0 = Inr s"
  by (simp add: straight_path_pointwise map2_same_fst)

lemma straight_path_end: "length s = length e \<Longrightarrow> straight_path s e 1 = Inr e"
  by (simp add: straight_path_pointwise map2_same_snd)

lemma spiral_start: "length s = length e \<Longrightarrow> spiral angle u s e 0 = Inr s"
  by (simp add: spiral_pointwise spiral_point_0 map2_same_fst)

lemma spiral_end: "length s = length e \<Longrightarrow> spiral angle u s e 1 = Inr e"
  by (simp add: spiral_pointwise spiral_point_1 map2_same_snd)

lemma vsub_vadd_cancel [simp]: "vsub (vadd c r) c = r"
  by (cases c; cases r) simp

lemma circles_point_1:
  assumes "dot u u = 1"
  shows "circles_point arc_angle u c s e 1 = e"
  using assms by (simp add: circles_point_def rot_vec_inverse)

lemma circles_path_start:
  assumes "length s = length e" and "length cs = length s \<or> length cs = 1"
  shows "circles_path arc_angle cs u s e 0 = Inr s"
  using assms
  by (simp add: circles_pointwise circles_point_0) (intro nth_equalityI; simp)

lemma circles_path_end:
  assumes "length s = length e" and "length cs = length s \<or> length cs = 1" and "dot u u = 1"
  shows "circles_path arc_angle cs u s e 1 = Inr e"
  using assms
  by (simp add: circles_pointwise circles_point_1) (intro nth_equalityI; simp)

lemma clockwise_path_eq: "clockwise_path eps = arc_path eps (- pi) OUT"
  by (simp add: clockwise_path_def path_along_arc_def pi_not_small)

lemma counterclockwise_path_eq: "counterclockwise_path eps = arc_path eps pi OUT"
  by (simp add: counterclockwise_path_def path_along_arc_def pi_not_small)

lemma dot_OUT [simp]: "dot OUT OUT = 1"
  by (simp add: OUT_def)

lemma dot_OUT_vec [simp]: "dot OUT (x, y, z) = z"
  by (simp add: OUT_def)


section \<open>Start and end of a path\<close>

text \<open>
  C1, as amended. For start and end collections of equal length, every path function
  returns the start collection at \<open>alpha = 0\<close>, and the end collection at \<open>alpha = 1\<close>,
  under these conditions: the centers given to \<^verbatim>\<open>path_along_circles\<close> are one per point or
  a single one; the angle of \<^verbatim>\<open>path_along_arc\<close> is below the threshold or not a multiple
  of \<open>2 * pi\<close>; and, for the end of an arc (also a clockwise or counterclockwise one),
  every end point differs from its start point by a vector perpendicular to the axis.
\<close>

theorem path_endpoints:
  assumes "length start_points = length end_points"
  shows "straight_path start_points end_points 0 = Inr start_points
    \<and> straight_path start_points end_points 1 = Inr end_points
    \<and> spiral_path angle axis start_points end_points 0 = Inr start_points
    \<and> spiral_path angle axis start_points end_points 1 = Inr end_points
    \<and> (length centers = length start_points \<or> length centers = 1 \<longrightarrow>
         path_along_circles arc_angle centers axis start_points end_points 0 = Inr start_points
         \<and> path_along_circles arc_angle centers axis start_points end_points 1 = Inr end_points)
    \<and> (\<bar>arc_angle\<bar> < 1 / 100 \<or> sin (arc_angle / 2) \<noteq> 0 \<longrightarrow>
         path_along_arc tan_residue arc_angle axis start_points end_points 0 = Inr start_points)
    \<and> ((\<bar>arc_angle\<bar> < 1 / 100 \<or> sin (arc_angle / 2) \<noteq> 0)
         \<and> perpendicular_chords (normalize_vec axis OUT) start_points end_points \<longrightarrow>
         path_along_arc tan_residue arc_angle axis start_points end_points 1 = Inr end_points)
    \<and> clockwise_path tan_residue start_points end_points 0 = Inr start_points
    \<and> counterclockwise_path tan_residue start_points end_points 0 = Inr start_points
    \<and> (perpendicular_chords OUT start_points end_points \<longrightarrow>
         clockwise_path tan_residue start_points end_points 1 = Inr end_points
         \<and> counterclockwise_path tan_residue start_points end_points 1 = Inr end_points)"
proof -
  note len = assms
  have straight:
    "straight_path start_points end_points 0 = Inr start_points
     \<and> straight_path start_points end_points 1 = Inr end_points"
    using len by (simp add: straight_path_start straight_path_end)
  have spir:
    "spiral_path angle axis start_points end_points 0 = Inr start_points
     \<and> spiral_path angle axis start_points end_points 1 = Inr end_points"
    using len straight by (simp add: spiral_path_def spiral_start spiral_end)
  have circ:
    "length centers = length start_points \<or> length centers = 1 \<longrightarrow>
       path_along_circles arc_angle centers axis start_points end_points 0 = Inr start_points
       \<and> path_along_circles arc_angle centers axis start_points end_points 1 = Inr end_points"
    using len
    by (simp add: path_along_circles_def circles_path_start circles_path_end normalize_unit)
  have arc0:
    "\<bar>arc_angle\<bar> < 1 / 100 \<or> sin (arc_angle / 2) \<noteq> 0 \<longrightarrow>
       path_along_arc tan_residue arc_angle axis start_points end_points 0 = Inr start_points"
    using len straight
    by (auto simp add: path_along_arc_def STRAIGHT_PATH_THRESHOLD_def arc_path_start)
  have arc1:
    "(\<bar>arc_angle\<bar> < 1 / 100 \<or> sin (arc_angle / 2) \<noteq> 0)
       \<and> perpendicular_chords (normalize_vec axis OUT) start_points end_points \<longrightarrow>
       path_along_arc tan_residue arc_angle axis start_points end_points 1 = Inr end_points"
    using len straight
    by (auto simp add: path_along_arc_def STRAIGHT_PATH_THRESHOLD_def arc_path_end
        normalize_unit)
  have cw0: "clockwise_path tan_residue start_points end_points 0 = Inr start_points"
    using len by (simp add: clockwise_path_eq arc_path_start)
  have ccw0: "counterclockwise_path tan_residue start_points end_points 0 = Inr start_points"
    using len by (simp add: counterclockwise_path_eq arc_path_start)
  have half1:
    "perpendicular_chords OUT start_points end_points \<longrightarrow>
       clockwise_path tan_residue start_points end_points 1 = Inr end_points
       \<and> counterclockwise_path tan_residue start_points end_points 1 = Inr end_points"
    using len by (simp add: clockwise_path_eq counterclockwise_path_eq arc_path_end)
  from straight spir circ arc0 arc1 cw0 ccw0 half1 show ?thesis
    by (intro conjI) (erule conjunct1 conjunct2 asm_rl)+
qed

theorem path_endpoints_witness:
  "length [(0, 0, 0) :: vec3] = length [(1, 0, 0) :: vec3]
   \<and> sin (pi / 2) \<noteq> 0
   \<and> perpendicular_chords (normalize_vec OUT OUT) [(0, 0, 0)] [(1, 0, 0)]
   \<and> perpendicular_chords OUT [(0, 0, 0)] [(1, 0, 0)]
   \<and> straight_path [(0, 0, 0)] [(1, 0, 0)] 1 = Inr [(1, 0, 0)]
   \<and> spiral_path 1 OUT [(0, 0, 0)] [(1, 0, 0)] 1 = Inr [(1, 0, 0)]
   \<and> path_along_circles pi [(0, 0, 0)] OUT [(0, 0, 0)] [(1, 0, 0)] 1 = Inr [(1, 0, 0)]
   \<and> path_along_arc (- 1 / 10 ^ 16) pi OUT [(0, 0, 0)] [(1, 0, 0)] 0 = Inr [(0, 0, 0)]
   \<and> path_along_arc (- 1 / 10 ^ 16) pi OUT [(0, 0, 0)] [(1, 0, 0)] 1 = Inr [(1, 0, 0)]
   \<and> clockwise_path (- 1 / 10 ^ 16) [(0, 0, 0)] [(1, 0, 0)] 1 = Inr [(1, 0, 0)]
   \<and> counterclockwise_path (- 1 / 10 ^ 16) [(0, 0, 0)] [(1, 0, 0)] 1 = Inr [(1, 0, 0)]"
  using path_endpoints [where tan_residue = "- 1 / 10 ^ 16" and start_points = "[(0, 0, 0)]" and end_points = "[(1, 0, 0)]"
      and angle = 1 and axis = OUT and centers = "[(0, 0, 0)]" and arc_angle = pi]
  by (simp add: perpendicular_chords_def)

text \<open>
  As the specification states it, C1 fails for a point that moves along the axis: the half turn of
  \<^verbatim>\<open>counterclockwise_path\<close> about the chord midpoint leaves the component along the
  axis unchanged, and the path ends where it started.
\<close>

theorem arc_misses_end_counterexample:
  "counterclockwise_path (- 1 / 10 ^ 16) [(0, 0, 0)] [(0, 0, 1)] 1 = Inr [(0, 0, 0)]
   \<and> counterclockwise_path (- 1 / 10 ^ 16) [(0, 0, 0)] [(0, 0, 1)] 1 \<noteq> Inr [(0, 0, 1)]"
  by (simp add: counterclockwise_path_eq arc_path_def arc_centers_def np_add_def np_sub_def
      np_broadcast_def np_scale_def np_dot_def rotation_matrix_def mat_identity_def OUT_def)

section \<open>Coincident start and end points\<close>

lemma vsub_self [simp]: "vsub p p = (0, 0, 0)"
  by (cases p) simp

lemma smul_zero_vec [simp]: "smul k (0, 0, 0) = (0, 0, 0)"
  by simp

lemma cross_zero_vec [simp]: "cross u (0, 0, 0) = (0, 0, 0)"
  by (cases u) simp

lemma rot_vec_zero_vec [simp]: "rot_vec angle u (0, 0, 0) = (0, 0, 0)"
  by (cases u) (simp add: rot_vec_def)

lemma interp_point_same [simp]: "interp_point p p alpha = p"
  by (simp add: interp_point_def)

lemma spiral_point_same: "spiral_point angle u p p alpha = p"
  by (simp add: spiral_point_def)

lemma arc_point_same: "arc_point eps arc_angle u p p alpha = p"
  by (simp add: arc_point_def arc_center_point_def)

lemma circles_point_same: "circles_point arc_angle u p p p alpha = p"
  by (simp add: circles_point_def)

lemma map2_diag: "map2 f p p = map (\<lambda>x. f x x) p"
  by (simp add: zip_same_conv_map)

lemma normalize_unit_z [simp]: "normalize_vec (0, 0, 1) fall_back = (0, 0, 1)"
  by (simp add: normalize_vec_def norm3_def)

lemma arc_path_same:
  assumes "sin (arc_angle / 2) \<noteq> 0 \<or> (eps \<noteq> 0 \<and> arc_angle \<noteq> 0)"
  shows "arc_path eps arc_angle u p p alpha = Inr p"
  using assms by (simp add: arc_path_pointwise arc_point_same map2_diag)

lemma circles_path_same: "circles_path arc_angle p u p p alpha = Inr p"
  by (simp add: circles_pointwise broadcast_centers_def) (intro nth_equalityI; simp add: circles_point_same)

text \<open>
  C2, as amended. When the start and the end collection are the same collection \<open>p\<close>,
  the result is \<open>p\<close> for every \<open>alpha\<close>, with no failure, for \<^verbatim>\<open>straight_path\<close>,
  \<^verbatim>\<open>spiral_path\<close>, \<^verbatim>\<open>clockwise_path\<close>, \<^verbatim>\<open>counterclockwise_path\<close>, for
  \<^verbatim>\<open>path_along_arc\<close> with every angle (at a non-zero multiple of \<open>2 * pi\<close> the zero
  offset is divided by the non-zero residue of the tangent), and for
  \<^verbatim>\<open>path_along_circles\<close> when every point is its own center. With other centers, one
  per point or a single one, \<^verbatim>\<open>path_along_circles\<close> returns \<open>p\<close> at \<open>alpha = 0\<close> and
  \<open>alpha = 1\<close>.
\<close>

theorem coincident_points_stay:
  "straight_path p p alpha = Inr p
   \<and> spiral_path angle axis p p alpha = Inr p
   \<and> (\<bar>arc_angle\<bar> < 1 / 100 \<or> sin (arc_angle / 2) \<noteq> 0 \<or> tan_residue \<noteq> 0 \<longrightarrow>
        path_along_arc tan_residue arc_angle axis p p alpha = Inr p)
   \<and> clockwise_path tan_residue p p alpha = Inr p
   \<and> counterclockwise_path tan_residue p p alpha = Inr p
   \<and> path_along_circles arc_angle p axis p p alpha = Inr p
   \<and> (length centers = length p \<or> length centers = 1 \<longrightarrow>
        path_along_circles arc_angle centers axis p p 0 = Inr p
        \<and> path_along_circles arc_angle centers axis p p 1 = Inr p)"
proof -
  have straight: "straight_path p p alpha = Inr p"
    by (simp add: straight_path_pointwise map2_diag)
  have spir: "spiral_path angle axis p p alpha = Inr p"
    using straight by (simp add: spiral_path_def spiral_pointwise spiral_point_same map2_diag)
  have arc: "\<bar>arc_angle\<bar> < 1 / 100 \<or> sin (arc_angle / 2) \<noteq> 0 \<or> tan_residue \<noteq> 0 \<longrightarrow>
        path_along_arc tan_residue arc_angle axis p p alpha = Inr p"
  proof (cases "\<bar>arc_angle\<bar> < STRAIGHT_PATH_THRESHOLD")
    case True
    with straight show ?thesis by (simp add: path_along_arc_def)
  next
    case False
    then have "arc_angle \<noteq> 0" by (auto simp add: STRAIGHT_PATH_THRESHOLD_def)
    with False show ?thesis
      by (auto simp add: path_along_arc_def STRAIGHT_PATH_THRESHOLD_def arc_path_same)
  qed
  have cw: "clockwise_path tan_residue p p alpha = Inr p"
    by (simp add: clockwise_path_eq arc_path_same)
  have ccw: "counterclockwise_path tan_residue p p alpha = Inr p"
    by (simp add: counterclockwise_path_eq arc_path_same)
  have own: "path_along_circles arc_angle p axis p p alpha = Inr p"
    by (simp add: path_along_circles_def circles_path_same)
  have ends: "length centers = length p \<or> length centers = 1 \<longrightarrow>
        path_along_circles arc_angle centers axis p p 0 = Inr p
        \<and> path_along_circles arc_angle centers axis p p 1 = Inr p"
    by (simp add: path_along_circles_def circles_path_start circles_path_end normalize_unit)
  from straight spir arc cw ccw own ends show ?thesis
    by (intro conjI) (erule conjunct1 conjunct2 asm_rl)+
qed

theorem coincident_points_stay_witness:
  "(- 1 / 10 ^ 16 :: real) \<noteq> 0
   \<and> length [(0, 0, 0) :: vec3] = 1
   \<and> straight_path [(1, 0, 0)] [(1, 0, 0)] (1 / 2) = Inr [(1, 0, 0)]
   \<and> spiral_path 1 OUT [(1, 0, 0)] [(1, 0, 0)] (1 / 2) = Inr [(1, 0, 0)]
   \<and> path_along_arc (- 1 / 10 ^ 16) (2 * pi) OUT [(1, 0, 0)] [(1, 0, 0)] (1 / 2)
       = Inr [(1, 0, 0)]
   \<and> clockwise_path (- 1 / 10 ^ 16) [(1, 0, 0)] [(1, 0, 0)] (1 / 2) = Inr [(1, 0, 0)]
   \<and> path_along_circles (2 * pi) [(1, 0, 0)] OUT [(1, 0, 0)] [(1, 0, 0)] (1 / 2)
       = Inr [(1, 0, 0)]
   \<and> path_along_circles (2 * pi) [(0, 0, 0)] OUT [(1, 0, 0)] [(1, 0, 0)] 1 = Inr [(1, 0, 0)]"
  using coincident_points_stay [where tan_residue = "- 1 / 10 ^ 16" and p = "[(1, 0, 0)]"
      and alpha = "1 / 2" and angle = 1 and axis = OUT and arc_angle = "2 * pi"
      and centers = "[(0, 0, 0)]"]
  by simp

text \<open>
  As the specification states it, C2 fails for \<^verbatim>\<open>path_along_circles\<close>: a point away from its center
  is carried around the center, although it starts and ends at the same place.
\<close>

theorem circles_move_coincident_points_counterexample:
  "path_along_circles pi [(0, 0, 0)] OUT [(1, 0, 0)] [(1, 0, 0)] (1 / 2) = Inr [(0, 0, 0)]
   \<and> path_along_circles pi [(0, 0, 0)] OUT [(1, 0, 0)] [(1, 0, 0)] (1 / 2) \<noteq> Inr [(1, 0, 0)]"
  by (simp add: path_along_circles_def circles_path_def interpolate_def np_add_def np_sub_def
      np_broadcast_def np_scale_def np_dot_def rotation_matrix_def mat_identity_def OUT_def)

section \<open>The half turn at its middle\<close>

lemma arc_point_half_turn_midway:
  "arc_point eps pi OUT (sx, sy, sz) (ex, ey, ez) (1 / 2) =
   ((sx + ex) / 2 - (sy - ey) / 2, (sy + ey) / 2 + (sx - ex) / 2, sz)"
  by (simp add: arc_point_def arc_center_point_def rot_vec_def OUT_def field_simps)

text \<open>
  C3, as amended. For collections of equal length, \<^verbatim>\<open>path_along_arc(pi)\<close> at
  \<open>alpha = 1 / 2\<close> returns, for each pair, the chord midpoint moved by the half chord
  \<open>(s - e) / 2\<close> turned a quarter turn about the z axis: the point
  \<open>((sx + ex) / 2 - (sy - ey) / 2, (sy + ey) / 2 + (sx - ex) / 2, sz)\<close>.
\<close>

theorem half_turn_midway:
  assumes "length start_points = length end_points"
  shows "path_along_arc tan_residue pi OUT start_points end_points (1 / 2) =
         Inr (map2 (\<lambda>(sx, sy, sz) (ex, ey, ez).
                ((sx + ex) / 2 - (sy - ey) / 2, (sy + ey) / 2 + (sx - ex) / 2, sz))
              start_points end_points)"
proof -
  have "path_along_arc tan_residue pi OUT start_points end_points (1 / 2) =
        Inr (map2 (\<lambda>p q. arc_point tan_residue pi OUT p q (1 / 2)) start_points end_points)"
    using assms by (simp add: path_along_arc_def pi_not_small arc_path_pointwise)
  moreover have "(\<lambda>p q. arc_point tan_residue pi OUT p q (1 / 2)) =
        (\<lambda>(sx, sy, sz) (ex, ey, ez).
                ((sx + ex) / 2 - (sy - ey) / 2, (sy + ey) / 2 + (sx - ex) / 2, sz))"
    by (intro ext) (simp add: arc_point_half_turn_midway split: prod.splits)
  ultimately show ?thesis by simp
qed

theorem half_turn_midway_witness:
  "length [(- 1, 0, 0) :: vec3] = length [(1, 0, 0) :: vec3]
   \<and> path_along_arc (- 1 / 10 ^ 16) pi OUT [(- 1, 0, 0)] [(1, 0, 0)] (1 / 2) = Inr [(0, - 1, 0)]"
  using half_turn_midway [where tan_residue = "- 1 / 10 ^ 16" and start_points = "[(- 1, 0, 0)]" and end_points = "[(1, 0, 0)]"]
  by simp

text \<open>
  As the specification states it, C3 fails: halfway through the half turn from \<open>(-1, 0, 0)\<close> to
  \<open>(1, 0, 0)\<close> the point is at \<open>(0, -1, 0)\<close>, on the circle, and not at the chord
  midpoint \<open>(0, 0, 0)\<close>.
\<close>

theorem half_turn_midway_counterexample:
  "path_along_arc (- 1 / 10 ^ 16) pi OUT [(- 1, 0, 0)] [(1, 0, 0)] (1 / 2) = Inr [(0, - 1, 0)]
   \<and> map2 midpoint [(- 1, 0, 0)] [(1, 0, 0)] = [(0, 0, 0)]
   \<and> path_along_arc (- 1 / 10 ^ 16) pi OUT [(- 1, 0, 0)] [(1, 0, 0)] (1 / 2)
       \<noteq> Inr (map2 midpoint [(- 1, 0, 0)] [(1, 0, 0)])"
  by (simp add: path_along_arc_def pi_not_small arc_path_def arc_centers_def np_add_def np_sub_def
      np_broadcast_def np_scale_def np_dot_def rotation_matrix_def mat_identity_def
      midpoint_def OUT_def)

section \<open>Collections of different lengths\<close>





















section \<open>The straight path\<close>

text \<open>
  C7. For collections \<open>s\<close> and \<open>e\<close> of equal length and every real \<open>alpha\<close>,
  inside \<open>[0, 1]\<close> or not, \<^verbatim>\<open>straight_path()(s, e, alpha)\<close> is \<open>s + alpha * (e - s)\<close>
  in every coordinate of every point.
\<close>

theorem straight_path_formula:
  assumes "length start_points = length end_points"
  shows "straight_path start_points end_points alpha =
         Inr (map2 (\<lambda>(sx, sy, sz) (ex, ey, ez).
                (sx + alpha * (ex - sx), sy + alpha * (ey - sy), sz + alpha * (ez - sz)))
              start_points end_points)"
proof -
  have "(\<lambda>p q. interp_point p q alpha) =
        (\<lambda>(sx, sy, sz) (ex, ey, ez).
                (sx + alpha * (ex - sx), sy + alpha * (ey - sy), sz + alpha * (ez - sz)))"
    by (intro ext) (simp add: interp_point_def split: prod.splits)
  with assms show ?thesis
    by (simp add: straight_path_pointwise)
qed

theorem straight_path_formula_witness:
  "length [(0, 0, 0), (1, 1, 1) :: vec3] = length [(2, 4, 6), (3, 1, - 1) :: vec3]
   \<and> straight_path [(0, 0, 0), (1, 1, 1)] [(2, 4, 6), (3, 1, - 1)] (3 / 2)
       = Inr [(3, 6, 9), (4, 1, - 2)]"
  using straight_path_formula [where start_points = "[(0, 0, 0), (1, 1, 1)]"
      and end_points = "[(2, 4, 6), (3, 1, - 1)]" and alpha = "3 / 2"]
  by simp

section \<open>The zero axis\<close>

text \<open>
  C9. Constructed with an axis of length zero, each of \<^verbatim>\<open>path_along_arc\<close>,
  \<^verbatim>\<open>path_along_circles\<close> and \<^verbatim>\<open>spiral_path\<close> is the same function as the one
  constructed with the default axis \<^verbatim>\<open>OUT\<close>.
\<close>

theorem zero_axis_is_default_axis:
  assumes "norm3 axis = 0"
  shows "path_along_arc tan_residue arc_angle axis = path_along_arc tan_residue arc_angle OUT
    \<and> path_along_circles arc_angle centers axis = path_along_circles arc_angle centers OUT
    \<and> spiral_path arc_angle axis = spiral_path arc_angle OUT"
  using assms
  by (simp add: path_along_arc_def path_along_circles_def spiral_path_def normalize_vec_def
      normalize_OUT [unfolded normalize_vec_def])

theorem zero_axis_is_default_axis_witness:
  "norm3 (0, 0, 0) = 0
   \<and> path_along_arc (- 1 / 10 ^ 16) pi (0, 0, 0) = path_along_arc (- 1 / 10 ^ 16) pi OUT
   \<and> path_along_circles pi [(1, 2, 3)] (0, 0, 0) = path_along_circles pi [(1, 2, 3)] OUT
   \<and> spiral_path pi (0, 0, 0) = spiral_path pi OUT"
  using zero_axis_is_default_axis [where axis = "(0, 0, 0)" and arc_angle = pi
      and centers = "[(1, 2, 3)]"]
  by (simp add: norm3_def)

section \<open>Constant distance to the center of the arc\<close>

lemma norm3_rot_vec:
  assumes "dot u u = 1"
  shows "norm3 (rot_vec angle u v) = norm3 v"
  using assms by (simp add: norm3_def rot_vec_dot)

lemma arc_centers_empty: "arc_centers eps arc_angle u [] [] = Inr []"
  by (simp add: arc_centers_def np_sub_def np_add_def np_broadcast_def np_scale_def np_cross_def
      np_div_def split: xreal.splits)

text \<open>
  C10. For \<open>\<bar>arc_angle\<bar> \<ge> 0.01\<close>, collections of equal length on which the centers of
  \<^verbatim>\<open>path_along_arc\<close> are defined, every index \<open>i\<close> and every real \<open>alpha\<close>, the
  output point is as far from its center as the start point is:
  \<open>dist3 (out ! i) (centers ! i) = dist3 (start_points ! i) (centers ! i)\<close>.
\<close>

theorem arc_keeps_distance_to_center:
  assumes "1 / 100 \<le> \<bar>arc_angle\<bar>"
    and "length start_points = length end_points"
    and "arc_centers tan_residue arc_angle (normalize_vec axis OUT) start_points end_points = Inr centers"
  shows "\<exists>out. path_along_arc tan_residue arc_angle axis start_points end_points alpha = Inr out
           \<and> length out = length start_points
           \<and> (\<forall>i < length start_points.
                 dist3 (out ! i) (centers ! i) = dist3 (start_points ! i) (centers ! i))"
proof -
  let ?u = "normalize_vec axis OUT"
  have centers_rows: "centers = map2 (arc_center_point tan_residue arc_angle ?u) start_points end_points"
  proof (cases "arc_angle = pi \<or> np_tan tan_residue (arc_angle / 2) \<noteq> Finite 0")
    case True
    with assms(2,3) show ?thesis by (simp add: arc_centers_rows)
  next
    case False
    then have ne: "arc_angle \<noteq> pi" and tz: "np_tan tan_residue (arc_angle / 2) = Finite 0"
      by simp_all
    have "start_points = []"
    proof (rule ccontr)
      assume "start_points \<noteq> []"
      then have "zip start_points end_points \<noteq> []"
        using assms(2) by (cases start_points; cases end_points) auto
      then have "arc_centers tan_residue arc_angle ?u (map fst (zip start_points end_points))
                   (map snd (zip start_points end_points)) = Inl NonFinite"
        using ne tz by (intro arc_centers_nonfinite)
      with assms(2,3) show False by simp
    qed
    with assms(2,3) show ?thesis by (simp add: arc_centers_empty)
  qed
  let ?out = "map2 (\<lambda>p c. vadd c (rot_vec (alpha * arc_angle) ?u (vsub p c))) start_points centers"
  have len_c: "length centers = length start_points"
    using assms(2) by (simp add: centers_rows)
  have "arc_path tan_residue arc_angle ?u start_points end_points alpha =
        bind_res (np_sub start_points centers) (\<lambda>d.
          np_add centers (np_dot d (transpose3 (rotation_matrix (alpha * arc_angle) ?u))))"
    by (simp add: arc_path_def assms(3))
  also have "\<dots> = bind_res (np_sub (map fst (zip start_points centers)) (map snd (zip start_points centers)))
        (\<lambda>d. np_add (map snd (zip start_points centers))
               (np_dot d (transpose3 (rotation_matrix (alpha * arc_angle) ?u))))"
    using len_c by simp
  also have "\<dots> = Inr (map (\<lambda>z. vadd (snd z) (rot_vec (alpha * arc_angle) ?u (vsub (fst z) (snd z))))
        (zip start_points centers))"
    by (simp only: np_sub_def np_add_def np_broadcast_map bind_res_Inr np_dot_rotation)
  also have "\<dots> = Inr ?out"
    by (simp add: case_prod_beta)
  finally have out: "path_along_arc tan_residue arc_angle axis start_points end_points alpha = Inr ?out"
    using assms(1) by (simp add: path_along_arc_def STRAIGHT_PATH_THRESHOLD_def)
  have "dist3 (?out ! i) (centers ! i) = dist3 (start_points ! i) (centers ! i)"
    if "i < length start_points" for i
    using that len_c by (simp add: dist3_def norm3_rot_vec normalize_unit)
  with out len_c show ?thesis by simp
qed

theorem arc_keeps_distance_to_center_witness:
  "1 / 100 \<le> \<bar>pi\<bar>
   \<and> length [(- 1, 0, 0) :: vec3] = length [(1, 0, 0) :: vec3]
   \<and> arc_centers (- 1 / 10 ^ 16) pi (normalize_vec OUT OUT) [(- 1, 0, 0)] [(1, 0, 0)] = Inr [(0, 0, 0)]
   \<and> (\<exists>out. path_along_arc (- 1 / 10 ^ 16) pi OUT [(- 1, 0, 0)] [(1, 0, 0)] (1 / 3) = Inr out
         \<and> length out = length [(- 1, 0, 0) :: vec3]
         \<and> (\<forall>i < length [(- 1, 0, 0) :: vec3].
               dist3 (out ! i) ([(0, 0, 0)] ! i) = dist3 ([(- 1, 0, 0)] ! i) ([(0, 0, 0)] ! i)))"
proof -
  have small: "1 / 100 \<le> \<bar>pi\<bar>"
    using pi_ge_two by simp
  have centers: "arc_centers (- 1 / 10 ^ 16) pi (normalize_vec OUT OUT) [(- 1, 0, 0)] [(1, 0, 0)] = Inr [(0, 0, 0)]"
    by (simp add: arc_centers_def np_sub_def np_add_def np_broadcast_def np_scale_def)
  have len: "length [(- 1, 0, 0) :: vec3] = length [(1, 0, 0) :: vec3]"
    by simp
  from arc_keeps_distance_to_center [OF small len centers, of "1 / 3"] small len centers
  show ?thesis by blast
qed

section \<open>Clockwise against counterclockwise\<close>

lemma arc_point_minus_half_turn_midway:
  "arc_point eps (- pi) OUT (sx, sy, sz) (ex, ey, ez) (1 / 2) =
   ((sx + ex) / 2 + (sy - ey) / 2, (sy + ey) / 2 - (sx - ex) / 2, sz)"
  by (simp add: arc_point_def arc_center_point_def rot_vec_def OUT_def field_simps)

lemma sum_squares_zero:
  fixes x y :: real
  assumes "x * x + y * y = 0"
  shows "x = 0 \<and> y = 0"
  using assms by (simp add: add_nonneg_eq_0_iff)

lemma half_turns_mirror_point:
  assumes "dot OUT (vsub e s) = 0"
  shows "arc_point eps (- pi) OUT s e (1 / 2) = reflect_across_chord s e (arc_point eps pi OUT s e (1 / 2))"
proof -
  obtain sx sy sz where s: "s = (sx, sy, sz)" by (cases s) auto
  obtain ex ey ez where e: "e = (ex, ey, ez)" by (cases e) auto
  have z: "ez = sz" using assms by (simp add: s e)
  show ?thesis
  proof (cases "(ex - sx) * (ex - sx) + (ey - sy) * (ey - sy) = 0")
    case True
    then have "ex = sx" "ey = sy" using sum_squares_zero by fastforce+
    then show ?thesis
      by (simp add: s e z arc_point_minus_half_turn_midway arc_point_half_turn_midway
          reflect_across_chord_def)
  next
    case False
    define D where "D = (ex - sx) * (ex - sx) + (ey - sy) * (ey - sy)"
    have nz: "D \<noteq> 0" unfolding D_def by (rule False)
    let ?p = "((sx + ex) / 2 - (sy - ey) / 2, (sy + ey) / 2 + (sx - ex) / 2, sz)"
    have dd: "dot (vsub (ex, ey, sz) (sx, sy, sz)) (vsub (ex, ey, sz) (sx, sy, sz)) = D"
      by (simp add: D_def)
    have pd: "dot (vsub ?p (sx, sy, sz)) (vsub (ex, ey, sz) (sx, sy, sz)) = D / 2"
      by (simp add: D_def field_simps)
    have coef: "D / 2 / D = 1 / 2"
      using nz by simp
    have "reflect_across_chord (sx, sy, sz) (ex, ey, sz) ?p =
          vsub (smul 2 (vadd (sx, sy, sz) (smul (1 / 2) (vsub (ex, ey, sz) (sx, sy, sz))))) ?p"
      unfolding reflect_across_chord_def Let_def dd pd coef using nz by (simp only: if_False)
    also have "\<dots> = ((sx + ex) / 2 + (sy - ey) / 2, (sy + ey) / 2 - (sx - ex) / 2, sz)"
      by (simp add: field_simps)
    finally show ?thesis
      by (simp only: s e z arc_point_minus_half_turn_midway arc_point_half_turn_midway)
  qed
qed

text \<open>
  C8, as amended. For collections of equal length in which every end point differs
  from its start point by a vector perpendicular to the axis \<^verbatim>\<open>OUT\<close>, the outputs of
  \<^verbatim>\<open>clockwise_path\<close> and \<^verbatim>\<open>counterclockwise_path\<close> at \<open>alpha = 1 / 2\<close> are, pair by
  pair, reflections of each other across the chord from the start to the end point.
\<close>

theorem half_turns_mirror:
  assumes "length start_points = length end_points"
    and "perpendicular_chords OUT start_points end_points"
  shows "\<exists>cw ccw. clockwise_path tan_residue start_points end_points (1 / 2) = Inr cw
           \<and> counterclockwise_path tan_residue start_points end_points (1 / 2) = Inr ccw
           \<and> length cw = length start_points \<and> length ccw = length start_points
           \<and> (\<forall>i < length start_points.
                 cw ! i = reflect_across_chord (start_points ! i) (end_points ! i) (ccw ! i))"
proof -
  let ?cw = "map2 (\<lambda>p q. arc_point tan_residue (- pi) OUT p q (1 / 2)) start_points end_points"
  let ?ccw = "map2 (\<lambda>p q. arc_point tan_residue pi OUT p q (1 / 2)) start_points end_points"
  have cw: "clockwise_path tan_residue start_points end_points (1 / 2) = Inr ?cw"
    using assms(1) by (simp add: clockwise_path_eq arc_path_pointwise)
  have ccw: "counterclockwise_path tan_residue start_points end_points (1 / 2) = Inr ?ccw"
    using assms(1) by (simp add: counterclockwise_path_eq arc_path_pointwise)
  have "?cw ! i = reflect_across_chord (start_points ! i) (end_points ! i) (?ccw ! i)"
    if "i < length start_points" for i
  proof -
    have "(start_points ! i, end_points ! i) \<in> set (zip start_points end_points)"
      using that assms(1) by (auto simp add: in_set_zip)
    with assms(2) have "dot OUT (vsub (end_points ! i) (start_points ! i)) = 0"
      by (auto simp add: perpendicular_chords_def list_all_iff)
    with that assms(1) show ?thesis
      by (simp add: half_turns_mirror_point)
  qed
  with cw ccw assms(1) show ?thesis by simp
qed

theorem half_turns_mirror_witness:
  "length [(- 1, 0, 0) :: vec3] = length [(1, 0, 0) :: vec3]
   \<and> perpendicular_chords OUT [(- 1, 0, 0)] [(1, 0, 0)]
   \<and> (\<exists>cw ccw. clockwise_path (- 1 / 10 ^ 16) [(- 1, 0, 0)] [(1, 0, 0)] (1 / 2) = Inr cw
         \<and> counterclockwise_path (- 1 / 10 ^ 16) [(- 1, 0, 0)] [(1, 0, 0)] (1 / 2) = Inr ccw
         \<and> length cw = length [(- 1, 0, 0) :: vec3] \<and> length ccw = length [(- 1, 0, 0) :: vec3]
         \<and> (\<forall>i < length [(- 1, 0, 0) :: vec3].
               cw ! i = reflect_across_chord ([(- 1, 0, 0)] ! i) ([(1, 0, 0)] ! i) (ccw ! i)))"
proof -
  have len: "length [(- 1, 0, 0) :: vec3] = length [(1, 0, 0) :: vec3]"
    by simp
  have perp: "perpendicular_chords OUT [(- 1, 0, 0)] [(1, 0, 0)]"
    by (simp add: perpendicular_chords_def)
  from half_turns_mirror [OF len perp] len perp show ?thesis by blast
qed

text \<open>
  As the specification states it, C8 fails for a chord that leaves the plane of the rotation: the two
  midway points are mirror images across the vertical plane through the chord, not
  across the chord.
\<close>

theorem half_turns_mirror_counterexample:
  "clockwise_path (- 1 / 10 ^ 16) [(0, 0, 0)] [(1, 0, 1)] (1 / 2) = Inr [(1 / 2, 1 / 2, 0)]
   \<and> counterclockwise_path (- 1 / 10 ^ 16) [(0, 0, 0)] [(1, 0, 1)] (1 / 2) = Inr [(1 / 2, - 1 / 2, 0)]
   \<and> reflect_across_chord (0, 0, 0) (1, 0, 1) (1 / 2, - 1 / 2, 0) = (0, 1 / 2, 1 / 2)
   \<and> reflect_across_chord (0, 0, 0) (1, 0, 1) (1 / 2, - 1 / 2, 0) \<noteq> (1 / 2, 1 / 2, 0)"
  by (simp add: clockwise_path_eq counterclockwise_path_eq arc_path_def arc_centers_def
      np_add_def np_sub_def np_broadcast_def np_scale_def np_cross_def np_dot_def np_div_def
      np_tan_def rotation_matrix_def mat_identity_def reflect_across_chord_def OUT_def)

end
